theory Spec2Isabelle
  imports Complex_Main
begin

section \<open>Python values\<close>

text \<open>
  The script \<^verbatim>\<open>scripts/historical_events.py\<close> computes with Python floats and with
  \<^verbatim>\<open>None\<close>. A float is modelled as a \<^typ>\<open>real\<close> (finite values, exact arithmetic:
  rounding, infinities and NaN are outside the model), an optional float as a
  \<^typ>\<open>real option\<close>.
\<close>

text \<open>
  Truth value of an optional float, as tested by \<^verbatim>\<open>if x:\<close> and \<^verbatim>\<open>a and b\<close>:
  \<^verbatim>\<open>None\<close> and \<^verbatim>\<open>0.0\<close> are false, every other float is true. Where the source
  tests a truth value, the model takes the branch for \<open>Some x\<close> with \<open>x \<noteq> 0\<close>; where
  it tests \<^verbatim>\<open>is None\<close>, the model takes the branch for every \<open>Some x\<close>.
\<close>

text \<open>\<^verbatim>\<open>int(x)\<close> of a float truncates towards zero.\<close>

definition py_int :: "real \<Rightarrow> int" where
  "py_int x = (if 0 \<le> x then \<lfloor>x\<rfloor> else \<lceil>x\<rceil>)"

text \<open>
  The exceptions that the modelled code can raise. A function that can raise returns
  \<open>py_error + 'a\<close>, with \<open>Inl\<close> for the exception.
\<close>

datatype py_error = ValueError | IndexError | OverflowError | TypeError

section \<open>The OMNI2 column tables\<close>

definition OMNI_COLUMNS :: "(string \<times> nat) list" where
  "OMNI_COLUMNS =
     [(''year'', 0),
      (''doy'', 1),
      (''hour'', 2),
      (''imf_magnitude'', 9),
      (''imf_bx_gse'', 14),
      (''imf_by_gse'', 15),
      (''imf_bz_gse'', 16),
      (''plasma_temp'', 22),
      (''proton_density'', 23),
      (''plasma_speed'', 24),
      (''kp'', 38),
      (''dst'', 40)]"

definition FILL_VALUES :: "(string \<times> real) list" where
  "FILL_VALUES =
     [(''imf_magnitude'', 9999 / 10),
      (''imf_bx_gse'', 9999 / 10),
      (''imf_by_gse'', 9999 / 10),
      (''imf_bz_gse'', 9999 / 10),
      (''plasma_temp'', 9999999),
      (''proton_density'', 9999 / 10),
      (''plasma_speed'', 9999),
      (''kp'', 99),
      (''dst'', 99999)]"

section \<open>Dates\<close>

text \<open>
  A \<^verbatim>\<open>datetime\<close> with zero minutes and seconds is the pair of its proleptic Gregorian
  ordinal (day 1 is 0001-01-01) and its hour of the day. The timestamp of a record is the
  ISO-8601 rendering of such a value; the rendering is one-to-one, and the model keeps the
  value itself.
\<close>

type_synonym datetime = "int \<times> int"

definition is_leap :: "int \<Rightarrow> bool" where
  "is_leap y = (if y mod 400 = 0 then True else if y mod 100 = 0 then False else y mod 4 = 0)"

definition days_in_month :: "int \<Rightarrow> int \<Rightarrow> int" where
  "days_in_month y m =
     (if m = 2 then (if is_leap y then 29 else 28)
      else if m = 4 \<or> m = 6 \<or> m = 9 \<or> m = 11 then 30
      else 31)"

definition days_before_month :: "int \<Rightarrow> int \<Rightarrow> int" where
  "days_before_month y m = sum_list (map (days_in_month y) [1 .. m - 1])"

definition days_before_year :: "int \<Rightarrow> int" where
  "days_before_year y = (y - 1) * 365 + (y - 1) div 4 - (y - 1) div 100 + (y - 1) div 400"

definition MAXORDINAL :: int where
  "MAXORDINAL = 3652059"

text \<open>
  \<^verbatim>\<open>
  def doy_to_date(year, doy, hour=0):
      return datetime(year, 1, 1) + timedelta(days=doy-1, hours=hour)
  \<close>
  The library calls are modelled as CPython's \<^verbatim>\<open>datetime\<close> module behaves:
  \<^item> \<^verbatim>\<open>datetime(year, 1, 1)\<close> raises OverflowError when \<^verbatim>\<open>year\<close> does not fit a C int
    and ValueError when it is outside 1..9999;
  \<^item> \<^verbatim>\<open>timedelta(days=d, hours=h)\<close> normalises to \<open>d + h div 24\<close> days and
    \<open>h mod 24\<close> hours, and raises OverflowError when the days exceed 999999999 in
    magnitude;
  \<^item> the sum raises OverflowError when the resulting date leaves 0001-01-01..9999-12-31.
\<close>

definition doy_to_date :: "int \<Rightarrow> int \<Rightarrow> int \<Rightarrow> py_error + datetime" where
  "doy_to_date year doy hour =
     (if year < - 2147483648 \<or> 2147483647 < year then Inl OverflowError
      else if year < 1 \<or> 9999 < year then Inl ValueError
      else
        (let days = (doy - 1) + hour div 24 in
         if 999999999 < \<bar>days\<bar> then Inl OverflowError
         else
           (let ordinal = days_before_year year + 1 + days in
            if ordinal < 1 \<or> MAXORDINAL < ordinal then Inl OverflowError
            else Inr (ordinal, hour mod 24))))"

text \<open>
  \<^verbatim>\<open>datetime.strptime(date_str, '%Y-%m-%d')\<close>: the format compiles to a regular
  expression of three groups separated by \<^verbatim>\<open>-\<close>, which must match the whole string:
  \<^item> the year, four digits;
  \<^item> the month, \<^verbatim>\<open>1[0-2]|0[1-9]|[1-9]\<close>;
  \<^item> the day, \<^verbatim>\<open>3[0-1]|[1-2]D|0[1-9]|[1-9]| [1-9]\<close>, where \<^verbatim>\<open>D\<close> is any digit.
  The date must then exist in the calendar, otherwise ValueError is raised as for a
  string that does not match. Characters are code points below 256, where the decimal
  digits are the ASCII ones.
\<close>

definition is_digit :: "char \<Rightarrow> bool" where
  "is_digit c = (48 \<le> (of_char c :: nat) \<and> (of_char c :: nat) \<le> 57)"

definition digit_val :: "char \<Rightarrow> int" where
  "digit_val c = int (of_char c) - 48"

fun year_group :: "string \<Rightarrow> int option" where
  "year_group [a, b, c, d] =
     (if is_digit a \<and> is_digit b \<and> is_digit c \<and> is_digit d
      then Some (1000 * digit_val a + 100 * digit_val b + 10 * digit_val c + digit_val d)
      else None)"
| "year_group _ = None"

fun month_group :: "string \<Rightarrow> int option" where
  "month_group [a, b] =
     (if a = CHR ''1'' \<and> is_digit b \<and> digit_val b \<le> 2 then Some (10 + digit_val b)
      else if a = CHR ''0'' \<and> is_digit b \<and> 1 \<le> digit_val b then Some (digit_val b)
      else None)"
| "month_group [a] = (if is_digit a \<and> 1 \<le> digit_val a then Some (digit_val a) else None)"
| "month_group _ = None"

fun day_group :: "string \<Rightarrow> int option" where
  "day_group [a, b] =
     (if a = CHR ''3'' \<and> is_digit b \<and> digit_val b \<le> 1 then Some (30 + digit_val b)
      else if (a = CHR ''1'' \<or> a = CHR ''2'') \<and> is_digit b then Some (10 * digit_val a + digit_val b)
      else if a = CHR ''0'' \<and> is_digit b \<and> 1 \<le> digit_val b then Some (digit_val b)
      else if a = CHR '' '' \<and> is_digit b \<and> 1 \<le> digit_val b then Some (digit_val b)
      else None)"
| "day_group [a] = (if is_digit a \<and> 1 \<le> digit_val a then Some (digit_val a) else None)"
| "day_group _ = None"

definition strptime_ymd :: "string \<Rightarrow> py_error + (int \<times> int \<times> int)" where
  "strptime_ymd date_str =
     (let y_str = take 4 date_str;
          rest = drop 4 date_str;
          m_str = takeWhile (\<lambda>c. c \<noteq> CHR ''-'') (drop 1 rest);
          rest' = drop (1 + length m_str) rest;
          d_str = drop 1 rest'
      in if take 1 rest = ''-'' \<and> take 1 rest' = ''-'' then
           (case (year_group y_str, month_group m_str, day_group d_str) of
              (Some y, Some m, Some d) \<Rightarrow>
                 if 1 \<le> y \<and> d \<le> days_in_month y m then Inr (y, m, d) else Inl ValueError
            | _ \<Rightarrow> Inl ValueError)
         else Inl ValueError)"

text \<open>
  \<^verbatim>\<open>
  def date_to_doy(date_str):
      dt = datetime.strptime(date_str, '%Y-%m-%d')
      return dt.year, dt.timetuple().tm_yday
  \<close>
\<close>

definition date_to_doy :: "string \<Rightarrow> py_error + (int \<times> int)" where
  "date_to_doy date_str =
     (case strptime_ymd date_str of
        Inl e \<Rightarrow> Inl e
      | Inr (y, m, d) \<Rightarrow> Inr (y, days_before_month y m + d))"

section \<open>Parsing one line\<close>

text \<open>
  \<^verbatim>\<open>line.split()\<close> cuts the line at runs of whitespace and returns the non-empty
  pieces. The whitespace code points below 256 are TAB, LF, VT, FF, CR, FS, GS, RS, US,
  SPACE, NEL (133) and NBSP (160). The scan keeps the current token reversed in \<open>tok\<close>.
\<close>

definition isspace :: "char \<Rightarrow> bool" where
  "isspace c = ((of_char c :: nat) \<in> {9, 10, 11, 12, 13, 28, 29, 30, 31, 32, 133, 160})"

fun split_scan :: "string \<Rightarrow> string \<Rightarrow> string list" where
  "split_scan tok [] = (if tok = [] then [] else [rev tok])"
| "split_scan tok (c # cs) =
     (if isspace c then (if tok = [] then split_scan [] cs else rev tok # split_scan [] cs)
      else split_scan (c # tok) cs)"

definition split_ws :: "string \<Rightarrow> string list" where
  "split_ws line = split_scan [] line"

text \<open>
  A raw record is the dictionary built by the parser: the twelve named columns, each a
  float or \<^verbatim>\<open>None\<close>, and the key \<^verbatim>\<open>'timestamp'\<close> when a timestamp was attached.
  \<open>entries\<close> holds the numeric keys; \<^verbatim>\<open>record.get(k)\<close> is \<open>get\<close>, which is
  \<^verbatim>\<open>None\<close> both for a missing key and for a key bound to \<^verbatim>\<open>None\<close>.
\<close>

record omni_record =
  entries :: "string \<rightharpoonup> real option"
  timestamp :: "datetime option"

definition get :: "omni_record \<Rightarrow> string \<Rightarrow> real option" where
  "get r k = (case entries r k of None \<Rightarrow> None | Some v \<Rightarrow> v)"

text \<open>
  \<^verbatim>\<open>
  fill = FILL_VALUES.get(name)
  if fill and abs(val - fill) < 0.1:
      val = None
  \<close>
\<close>

definition fill_check :: "string \<Rightarrow> real \<Rightarrow> real option" where
  "fill_check name val =
     (case map_of FILL_VALUES name of
        None \<Rightarrow> Some val
      | Some fill \<Rightarrow> if fill \<noteq> 0 \<and> \<bar>val - fill\<bar> < 1 / 10 then None else Some val)"

text \<open>
  The loop over \<^verbatim>\<open>OMNI_COLUMNS.items()\<close>. Python's \<^verbatim>\<open>float\<close> is the parameter
  \<open>pyfloat\<close>: it returns the decoded value, or \<open>None\<close> where \<^verbatim>\<open>float\<close> raises
  ValueError.
  \<^verbatim>\<open>
  for name, col in OMNI_COLUMNS.items():
      if col < len(parts):
          val = float(parts[col])
          ...
          record[name] = val
  \<close>
\<close>

fun decode_columns ::
    "(string \<Rightarrow> real option) \<Rightarrow> string list \<Rightarrow> (string \<times> nat) list \<Rightarrow>
     (string \<rightharpoonup> real option) \<Rightarrow> py_error + (string \<rightharpoonup> real option)" where
  "decode_columns pyfloat parts [] rec = Inr rec"
| "decode_columns pyfloat parts ((name, col) # cols) rec =
     (if col < length parts then
        (case pyfloat (parts ! col) of
           None \<Rightarrow> Inl ValueError
         | Some val \<Rightarrow> decode_columns pyfloat parts cols (rec(name \<mapsto> fill_check name val)))
      else decode_columns pyfloat parts cols rec)"

text \<open>
  \<^verbatim>\<open>
  def parse_omni_line(line):
      parts = line.split()
      if len(parts) < 45:
          return None
      try:
          record = {}
          for name, col in OMNI_COLUMNS.items(): ...
          if record.get('year') and record.get('doy') and record.get('hour') is not None:
              record['timestamp'] = doy_to_date(
                  int(record['year']), int(record['doy']), int(record['hour'])).isoformat()
          return record
      except (ValueError, IndexError) as e:
          return None
  \<close>
  The result is \<open>Inr None\<close> for \<^verbatim>\<open>return None\<close>, \<open>Inr (Some r)\<close> for a record and
  \<open>Inl e\<close> for an exception that the handler does not catch.
\<close>

definition attach_timestamp ::
    "(string \<rightharpoonup> real option) \<Rightarrow> py_error + omni_record" where
  "attach_timestamp rec =
     (let record = \<lparr> entries = rec, timestamp = None \<rparr> in
      case (get record ''year'', get record ''doy'', get record ''hour'') of
        (Some y, Some d, Some h) \<Rightarrow>
          if y \<noteq> 0 \<and> d \<noteq> 0 then
            (case doy_to_date (py_int y) (py_int d) (py_int h) of
               Inl e \<Rightarrow> Inl e
             | Inr ts \<Rightarrow> Inr (record \<lparr> timestamp := Some ts \<rparr>))
          else Inr record
      | _ \<Rightarrow> Inr record)"

definition handled :: "py_error \<Rightarrow> bool" where
  "handled e = (e = ValueError \<or> e = IndexError)"

definition parse_omni_line ::
    "(string \<Rightarrow> real option) \<Rightarrow> string \<Rightarrow> py_error + omni_record option" where
  "parse_omni_line pyfloat line =
     (let parts = split_ws line in
      if length parts < 45 then Inr None
      else
        (case decode_columns pyfloat parts OMNI_COLUMNS Map.empty of
           Inl e \<Rightarrow> if handled e then Inr None else Inl e
         | Inr rec \<Rightarrow>
             (case attach_timestamp rec of
                Inl e \<Rightarrow> if handled e then Inr None else Inl e
              | Inr record \<Rightarrow> Inr (Some record))))"

text \<open>
  An instance of the parameter \<open>pyfloat\<close>: \<^verbatim>\<open>float\<close> on plain decimal literals, an
  optional sign, digits and an optional point with digits (\<^verbatim>\<open>800\<close>, \<^verbatim>\<open>-20.5\<close>,
  \<^verbatim>\<open>9999.\<close>, \<^verbatim>\<open>.5\<close>), the form of the numbers of an OMNI2 file. The properties
  below hold for every decoder; this one runs the parser on concrete lines.
\<close>

fun digits_value :: "string \<Rightarrow> nat \<Rightarrow> nat option" where
  "digits_value [] acc = Some acc"
| "digits_value (c # cs) acc =
     (if is_digit c then digits_value cs (10 * acc + nat (digit_val c)) else None)"

definition unsigned_decimal :: "string \<Rightarrow> real option" where
  "unsigned_decimal s =
     (let int_part = takeWhile (\<lambda>c. c \<noteq> CHR ''.'') s;
          frac_part = drop (length int_part + 1) s
      in if int_part = [] \<and> frac_part = [] then None
         else
           (case (digits_value int_part 0, digits_value frac_part 0) of
              (Some i, Some f) \<Rightarrow> Some (real i + real f / 10 ^ length frac_part)
            | _ \<Rightarrow> None))"

definition float_decimal :: "string \<Rightarrow> real option" where
  "float_decimal s =
     (case s of
        [] \<Rightarrow> None
      | c # cs \<Rightarrow>
          if c = CHR ''-'' then map_option uminus (unsigned_decimal cs)
          else if c = CHR ''+'' then unsigned_decimal cs
          else unsigned_decimal s)"

section \<open>Fetching a date range\<close>

text \<open>
  The three \<^verbatim>\<open>continue\<close> statements of the date-range filter, in the order of the source:
  \<^verbatim>\<open>
  if rec_year == start_year and rec_doy < start_doy:
      continue
  if rec_year == end_year and rec_doy > end_doy:
      continue
  if rec_year < start_year or rec_year > end_year:
      continue
  all_data.append(record)
  \<close>
  \<open>keep_record\<close> is true when the record reaches the \<^verbatim>\<open>append\<close>.
\<close>

definition keep_record :: "int \<Rightarrow> int \<Rightarrow> int \<Rightarrow> int \<Rightarrow> int \<Rightarrow> int \<Rightarrow> bool" where
  "keep_record start_year start_doy end_year end_doy rec_year rec_doy =
     (if rec_year = start_year \<and> rec_doy < start_doy then False
      else if rec_year = end_year \<and> rec_doy > end_doy then False
      else if rec_year < start_year \<or> rec_year > end_year then False
      else True)"

text \<open>
  \<^verbatim>\<open>int(record.get(k, 0))\<close>: the default \<^verbatim>\<open>0\<close> is used for a missing key only; a key
  bound to \<^verbatim>\<open>None\<close> makes \<^verbatim>\<open>int\<close> raise TypeError.
\<close>

definition int_get0 :: "omni_record \<Rightarrow> string \<Rightarrow> py_error + int" where
  "int_get0 r k =
     (case entries r k of
        None \<Rightarrow> Inr 0
      | Some None \<Rightarrow> Inl TypeError
      | Some (Some v) \<Rightarrow> Inr (py_int v))"

text \<open>
  The inner loop of \<^verbatim>\<open>fetch_event_data\<close> over the lines of one year, appending to
  \<open>all_data\<close>. The test \<^verbatim>\<open>if not record\<close> skips \<^verbatim>\<open>None\<close> and the empty dictionary.
\<close>

fun scan_lines ::
    "(string \<Rightarrow> real option) \<Rightarrow> int \<Rightarrow> int \<Rightarrow> int \<Rightarrow> int \<Rightarrow> string list \<Rightarrow>
     omni_record list \<Rightarrow> py_error + omni_record list" where
  "scan_lines pyfloat sy sd ey ed [] all_data = Inr all_data"
| "scan_lines pyfloat sy sd ey ed (line # lines) all_data =
     (case parse_omni_line pyfloat line of
        Inl e \<Rightarrow> Inl e
      | Inr None \<Rightarrow> scan_lines pyfloat sy sd ey ed lines all_data
      | Inr (Some record) \<Rightarrow>
          if entries record = Map.empty \<and> timestamp record = None
          then scan_lines pyfloat sy sd ey ed lines all_data
          else
            (case int_get0 record ''year'' of
               Inl e \<Rightarrow> Inl e
             | Inr rec_year \<Rightarrow>
                 (case int_get0 record ''doy'' of
                    Inl e \<Rightarrow> Inl e
                  | Inr rec_doy \<Rightarrow>
                      if keep_record sy sd ey ed rec_year rec_doy
                      then scan_lines pyfloat sy sd ey ed lines (all_data @ [record])
                      else scan_lines pyfloat sy sd ey ed lines all_data)))"

text \<open>
  The outer loop over \<^verbatim>\<open>range(start_year, end_year + 1)\<close>. \<^verbatim>\<open>fetch_omni_year\<close> is the
  parameter \<open>fetch\<close>: the lines of the year's file, or \<open>None\<close> when the download failed.
\<close>

fun scan_years ::
    "(int \<Rightarrow> string list option) \<Rightarrow> (string \<Rightarrow> real option) \<Rightarrow> int \<Rightarrow> int \<Rightarrow> int \<Rightarrow> int \<Rightarrow>
     int list \<Rightarrow> omni_record list \<Rightarrow> py_error + omni_record list" where
  "scan_years fetch pyfloat sy sd ey ed [] all_data = Inr all_data"
| "scan_years fetch pyfloat sy sd ey ed (year # years) all_data =
     (case fetch year of
        None \<Rightarrow> scan_years fetch pyfloat sy sd ey ed years all_data
      | Some lines \<Rightarrow>
          if lines = [] then scan_years fetch pyfloat sy sd ey ed years all_data
          else
            (case scan_lines pyfloat sy sd ey ed lines all_data of
               Inl e \<Rightarrow> Inl e
             | Inr all_data' \<Rightarrow> scan_years fetch pyfloat sy sd ey ed years all_data'))"

text \<open>
  \<^verbatim>\<open>
  def fetch_event_data(start_date, end_date):
      start_year, start_doy = date_to_doy(start_date)
      end_year, end_doy = date_to_doy(end_date)
      all_data = []
      for year in range(start_year, end_year + 1):
          lines = fetch_omni_year(year)
          if not lines:
              continue
          for line in lines: ...
      return all_data
  \<close>
\<close>

definition fetch_event_data ::
    "(int \<Rightarrow> string list option) \<Rightarrow> (string \<Rightarrow> real option) \<Rightarrow> string \<Rightarrow> string \<Rightarrow>
     py_error + omni_record list" where
  "fetch_event_data fetch pyfloat start_date end_date =
     (case date_to_doy start_date of
        Inl e \<Rightarrow> Inl e
      | Inr (start_year, start_doy) \<Rightarrow>
          (case date_to_doy end_date of
             Inl e \<Rightarrow> Inl e
           | Inr (end_year, end_doy) \<Rightarrow>
               scan_years fetch pyfloat start_year start_doy end_year end_doy
                 [start_year .. end_year] []))"

section \<open>Derived quantities\<close>

text \<open>
  \<^verbatim>\<open>
  def calculate_magnetopause_standoff(density, speed, bz):
      if density is None or speed is None:
          return 10.0  # Default
      p_dyn = 2e-6 * density * speed * speed
      bz_factor = 1.0
      if bz is not None and bz < 0:
          bz_factor = 1.0 + 0.02 * abs(bz)
      if p_dyn > 0:
          r0 = 11.4 * (p_dyn ** (-1/6.6)) / bz_factor
      else:
          r0 = 10.0
      return max(4.0, min(15.0, r0))
  \<close>
\<close>

definition calculate_magnetopause_standoff ::
    "real option \<Rightarrow> real option \<Rightarrow> real option \<Rightarrow> real" where
  "calculate_magnetopause_standoff density speed bz =
     (case density of None \<Rightarrow> 10 | Some n \<Rightarrow>
      (case speed of None \<Rightarrow> 10 | Some v \<Rightarrow>
        (let p_dyn = 2 / 1000000 * n * v * v;
             bz_factor = (case bz of None \<Rightarrow> 1
                          | Some b \<Rightarrow> if b < 0 then 1 + 2 / 100 * \<bar>b\<bar> else 1);
             r0 = (if p_dyn > 0 then 114 / 10 * (p_dyn powr (- 1 / (66 / 10))) / bz_factor
                   else 10)
         in max 4 (min 15 r0))))"

text \<open>
  \<^verbatim>\<open>
  def calculate_storm_intensity(dst, kp):
      if dst is None:
          dst = 0
      if kp is None:
          kp = 0
      else:
          kp = kp / 10.0  # OMNI stores Kp * 10
      dst_level = 0
      if dst <= -50: dst_level = 1  # G1
      if dst <= -100: dst_level = 2  # G2
      if dst <= -200: dst_level = 3  # G3
      if dst <= -300: dst_level = 4  # G4
      if dst <= -400: dst_level = 5  # G5
      kp_level = 0
      if kp >= 5: kp_level = 1
      if kp >= 6: kp_level = 2
      if kp >= 7: kp_level = 3
      if kp >= 8: kp_level = 4
      if kp >= 9: kp_level = 5
      return max(dst_level, kp_level)
  \<close>
  The five independent \<^verbatim>\<open>if\<close> statements are five successive assignments: each one
  either overwrites the level or keeps the one it found.
\<close>

definition dst_level_of :: "real \<Rightarrow> nat" where
  "dst_level_of dst =
     (let l0 = 0;
          l1 = (if dst \<le> - 50 then 1 else l0);
          l2 = (if dst \<le> - 100 then 2 else l1);
          l3 = (if dst \<le> - 200 then 3 else l2);
          l4 = (if dst \<le> - 300 then 4 else l3);
          l5 = (if dst \<le> - 400 then 5 else l4)
      in l5)"

definition kp_level_of :: "real \<Rightarrow> nat" where
  "kp_level_of kp =
     (let l0 = 0;
          l1 = (if kp \<ge> 5 then 1 else l0);
          l2 = (if kp \<ge> 6 then 2 else l1);
          l3 = (if kp \<ge> 7 then 3 else l2);
          l4 = (if kp \<ge> 8 then 4 else l3);
          l5 = (if kp \<ge> 9 then 5 else l4)
      in l5)"

definition calculate_storm_intensity :: "real option \<Rightarrow> real option \<Rightarrow> nat" where
  "calculate_storm_intensity dst kp =
     (let dst' = (case dst of None \<Rightarrow> 0 | Some d \<Rightarrow> d);
          kp' = (case kp of None \<Rightarrow> 0 | Some k \<Rightarrow> k / 10)
      in max (dst_level_of dst') (kp_level_of kp'))"

text \<open>
  The single ordered lookup the cumulative checks are compared with: the first threshold
  reached, read from the most severe one down.
\<close>

definition dst_level_lookup :: "real \<Rightarrow> nat" where
  "dst_level_lookup dst =
     (if dst \<le> - 400 then 5
      else if dst \<le> - 300 then 4
      else if dst \<le> - 200 then 3
      else if dst \<le> - 100 then 2
      else if dst \<le> - 50 then 1
      else 0)"

section \<open>Processing the records\<close>

text \<open>
  The processed record is the nested dictionary that \<^verbatim>\<open>process_event_data\<close> appends:
  one record type per inner dictionary. The key \<^verbatim>\<open>'by'\<close> is the field \<open>by_gse\<close>.
\<close>

record solar_wind =
  speed :: "real option"
  density :: "real option"
  temperature :: "real option"
  pressure :: "real option"

record imf =
  magnitude :: "real option"
  bx :: "real option"
  by_gse :: "real option"
  bz :: "real option"

record geomagnetic =
  dst :: "real option"
  kp :: "real option"
  storm_level :: nat

record magnetosphere =
  standoff_re :: real

record processed_record =
  timestamp :: datetime
  solar_wind :: solar_wind
  imf :: imf
  geomagnetic :: geomagnetic
  magnetosphere :: magnetosphere

text \<open>
  The body of the loop of \<^verbatim>\<open>process_event_data\<close> for one record; \<open>None\<close> is the
  \<^verbatim>\<open>continue\<close> taken when the record has no timestamp.
  \<^verbatim>\<open>
  if not record.get('timestamp'):
      continue
  density = record.get('proton_density')
  speed = record.get('plasma_speed')
  bz = record.get('imf_bz_gse')
  dst = record.get('dst')
  kp = record.get('kp')
  temp = record.get('plasma_temp')
  if density and speed:
      pressure = 2e-6 * density * speed * speed  # nPa
  else:
      pressure = None
  standoff = calculate_magnetopause_standoff(density, speed, bz)
  storm_level = calculate_storm_intensity(dst, kp)
  processed.append({... 'kp': kp / 10.0 if kp else None, ...})
  \<close>
\<close>

definition process_record :: "omni_record \<Rightarrow> processed_record option" where
  "process_record record =
     (case omni_record.timestamp record of
        None \<Rightarrow> None
      | Some ts \<Rightarrow>
          (let density = get record ''proton_density'';
               speed = get record ''plasma_speed'';
               bz = get record ''imf_bz_gse'';
               dst = get record ''dst'';
               kp = get record ''kp'';
               temp = get record ''plasma_temp'';
               pressure =
                 (case (density, speed) of
                    (Some n, Some v) \<Rightarrow>
                      if n \<noteq> 0 \<and> v \<noteq> 0 then Some (2 / 1000000 * n * v * v) else None
                  | _ \<Rightarrow> None);
               standoff = calculate_magnetopause_standoff density speed bz;
               storm_level = calculate_storm_intensity dst kp
           in Some
             \<lparr> timestamp = ts,
               solar_wind =
                 \<lparr> speed = speed, density = density, temperature = temp,
                   pressure = pressure \<rparr>,
               imf =
                 \<lparr> magnitude = get record ''imf_magnitude'',
                   bx = get record ''imf_bx_gse'',
                   by_gse = get record ''imf_by_gse'',
                   bz = bz \<rparr>,
               geomagnetic =
                 \<lparr> dst = dst,
                   kp = (case kp of None \<Rightarrow> None
                         | Some k \<Rightarrow> if k \<noteq> 0 then Some (k / 10) else None),
                   storm_level = storm_level \<rparr>,
               magnetosphere = \<lparr> standoff_re = standoff \<rparr> \<rparr>))"

text \<open>
  \<^verbatim>\<open>process_event_data(raw_data, event_info)\<close>. The time of the run, written to
  \<^verbatim>\<open>'generated_at'\<close>, is the parameter \<open>now\<close>.
\<close>

record 'e processed_data =
  event_info :: "'e option"
  data :: "processed_record list"
  generated_at :: string

definition process_event_data ::
    "omni_record list \<Rightarrow> 'e option \<Rightarrow> string \<Rightarrow> 'e processed_data" where
  "process_event_data raw_data info now =
     \<lparr> event_info = info,
       data = List.map_filter process_record raw_data,
       generated_at = now \<rparr>"

section \<open>The summary\<close>

text \<open>
  The list comprehensions of \<^verbatim>\<open>generate_summary\<close> keep the values that are true in a
  condition, \<^verbatim>\<open>[d['solar_wind']['speed'] for d in data if d['solar_wind']['speed']]\<close>:
  \<open>truthy_values\<close> is that comprehension over the column of values.
\<close>

definition truthy_values :: "real option list \<Rightarrow> real list" where
  "truthy_values vs = concat (map (\<lambda>v. case v of None \<Rightarrow> [] | Some x \<Rightarrow> if x \<noteq> 0 then [x] else []) vs)"

record summary_time_range =
  start_ts :: datetime
  end_ts :: datetime
  hours :: nat

record summary_solar_wind =
  max_speed :: "real option"
  min_speed :: "real option"
  avg_speed :: "real option"
  max_density :: "real option"

record summary_geomagnetic =
  min_dst :: "real option"
  max_storm_level :: nat

record summary_imf =
  min_bz :: "real option"
  max_bz :: "real option"

record event_summary =
  sum_time_range :: summary_time_range
  sum_solar_wind :: summary_solar_wind
  sum_geomagnetic :: summary_geomagnetic
  sum_imf :: summary_imf

text \<open>
  \<^verbatim>\<open>max(xs) if xs else None\<close>, \<^verbatim>\<open>min(xs) if xs else None\<close> and
  \<^verbatim>\<open>sum(xs) / len(xs) if xs else None\<close>.
\<close>

definition max_or_none :: "real list \<Rightarrow> real option" where
  "max_or_none xs = (if xs = [] then None else Some (Max (set xs)))"

definition min_or_none :: "real list \<Rightarrow> real option" where
  "min_or_none xs = (if xs = [] then None else Some (Min (set xs)))"

definition avg_or_none :: "real list \<Rightarrow> real option" where
  "avg_or_none xs = (if xs = [] then None else Some (sum_list xs / real (length xs)))"

text \<open>
  \<^verbatim>\<open>
  def generate_summary(processed_data):
      data = processed_data.get('data', [])
      if not data:
          return {}
      speeds = [d['solar_wind']['speed'] for d in data if d['solar_wind']['speed']]
      densities = [d['solar_wind']['density'] for d in data if d['solar_wind']['density']]
      dsts = [d['geomagnetic']['dst'] for d in data if d['geomagnetic']['dst']]
      bzs = [d['imf']['bz'] for d in data if d['imf']['bz']]
      return {
          'time_range': {'start': data[0]['timestamp'], 'end': data[-1]['timestamp'],
                         'hours': len(data)},
          'solar_wind': {'max_speed': max(speeds) if speeds else None,
                         'min_speed': min(speeds) if speeds else None,
                         'avg_speed': sum(speeds) / len(speeds) if speeds else None,
                         'max_density': max(densities) if densities else None},
          'geomagnetic': {'min_dst': min(dsts) if dsts else None,
                          'max_storm_level': max(d['geomagnetic']['storm_level'] for d in data)},
          'imf': {'min_bz': min(bzs) if bzs else None, 'max_bz': max(bzs) if bzs else None}}
  \<close>
  The empty dictionary returned for no data is \<open>None\<close>.
\<close>

definition generate_summary :: "'e processed_data \<Rightarrow> event_summary option" where
  "generate_summary processed_data =
     (let data = data processed_data in
      if data = [] then None
      else
        (let speeds = truthy_values (map (\<lambda>d. speed (solar_wind d)) data);
             densities = truthy_values (map (\<lambda>d. density (solar_wind d)) data);
             dsts = truthy_values (map (\<lambda>d. dst (geomagnetic d)) data);
             bzs = truthy_values (map (\<lambda>d. bz (imf d)) data)
         in Some
           \<lparr> sum_time_range =
               \<lparr> start_ts = timestamp (hd data), end_ts = timestamp (last data),
                 hours = length data \<rparr>,
             sum_solar_wind =
               \<lparr> max_speed = max_or_none speeds,
                 min_speed = min_or_none speeds,
                 avg_speed = avg_or_none speeds,
                 max_density = max_or_none densities \<rparr>,
             sum_geomagnetic =
               \<lparr> min_dst = min_or_none dsts,
                 max_storm_level = Max (set (map (\<lambda>d. storm_level (geomagnetic d)) data)) \<rparr>,
             sum_imf = \<lparr> min_bz = min_or_none bzs, max_bz = max_or_none bzs \<rparr> \<rparr>))"

section \<open>Sample data\<close>

text \<open>
  Lines in the layout of an OMNI2 hourly file, and the records they decode to. The storm
  hour has Dst = -450, Kp = 9.0 (stored as 90), density 10, speed 800 and Bz = -20. The
  gap hour carries the fill values of temperature, density and speed. The line without a
  date has day of year 0. The quiet hour has Kp = 0, Dst = 0 and Bz = 0.0, the calm hour
  after it Dst = 12 and Bz = 2.5, and the void hour a density of 0.0. The half-day line
  has the day of year 306.5.
\<close>

definition storm_line :: string where
  "storm_line = ''2003 301  0 2324 71 71  60  60  10.9  10.5 -12.3 170.2  -9.8   1.7  -3.2   4.1 -20.0 0.4 0.5 0.6 0.7 0.8 250000. 10.0 800. -1.2 2.3 0.015 99999. 9.9 9.9 9.99 9.9 9.9 9.9 12.80 5.1 999.9 90 120 -450 1500 0 1 2 3''"

definition storm_record :: omni_record where
  "storm_record =
     \<lparr> entries =
         [''year'' \<mapsto> Some 2003, ''doy'' \<mapsto> Some 301, ''hour'' \<mapsto> Some 0,
          ''imf_magnitude'' \<mapsto> Some (105 / 10), ''imf_bx_gse'' \<mapsto> Some (- (32 / 10)),
          ''imf_by_gse'' \<mapsto> Some (41 / 10), ''imf_bz_gse'' \<mapsto> Some (- 20),
          ''plasma_temp'' \<mapsto> Some 250000, ''proton_density'' \<mapsto> Some 10,
          ''plasma_speed'' \<mapsto> Some 800, ''kp'' \<mapsto> Some 90, ''dst'' \<mapsto> Some (- 450)],
       omni_record.timestamp = Some (731516, 0) \<rparr>"

definition storm_processed :: processed_record where
  "storm_processed =
     \<lparr> timestamp = (731516, 0),
       solar_wind = \<lparr> speed = Some 800, density = Some 10, temperature = Some 250000,
                      pressure = Some (128 / 10) \<rparr>,
       imf = \<lparr> magnitude = Some (105 / 10), bx = Some (- (32 / 10)), by_gse = Some (41 / 10),
               bz = Some (- 20) \<rparr>,
       geomagnetic = \<lparr> dst = Some (- 450), kp = Some 9, storm_level = 5 \<rparr>,
       magnetosphere =
         \<lparr> standoff_re = calculate_magnetopause_standoff (Some 10) (Some 800) (Some (- 20)) \<rparr> \<rparr>"

definition gap_line :: string where
  "gap_line = ''2003 301  1 2324 71 99  60 999  10.9  10.5 -12.3 170.2  -9.8   1.7  -3.2   4.1  -2.0 0.4 0.5 0.6 0.7 0.8 9999999. 999.9 9999. -1.2 2.3 0.015 99999. 9.9 9.9 9.99 9.9 9.9 9.9 99.99 5.1 999.9 30 120 -60 1500 0 1 2 3''"

definition gap_record :: omni_record where
  "gap_record =
     \<lparr> entries =
         [''year'' \<mapsto> Some 2003, ''doy'' \<mapsto> Some 301, ''hour'' \<mapsto> Some 1,
          ''imf_magnitude'' \<mapsto> Some (105 / 10), ''imf_bx_gse'' \<mapsto> Some (- (32 / 10)),
          ''imf_by_gse'' \<mapsto> Some (41 / 10), ''imf_bz_gse'' \<mapsto> Some (- 2),
          ''plasma_temp'' \<mapsto> None, ''proton_density'' \<mapsto> None,
          ''plasma_speed'' \<mapsto> None, ''kp'' \<mapsto> Some 30, ''dst'' \<mapsto> Some (- 60)],
       omni_record.timestamp = Some (731516, 1) \<rparr>"

definition gap_processed :: processed_record where
  "gap_processed =
     \<lparr> timestamp = (731516, 1),
       solar_wind = \<lparr> speed = None, density = None, temperature = None, pressure = None \<rparr>,
       imf = \<lparr> magnitude = Some (105 / 10), bx = Some (- (32 / 10)), by_gse = Some (41 / 10),
               bz = Some (- 2) \<rparr>,
       geomagnetic = \<lparr> dst = Some (- 60), kp = Some 3, storm_level = 1 \<rparr>,
       magnetosphere = \<lparr> standoff_re = 10 \<rparr> \<rparr>"



definition quiet_line :: string where
  "quiet_line = ''2003 300 12 2324 71 71  60  60   5.3   5.2 -12.3 170.2  -9.8   1.7   1.1  -0.4   0.0 0.4 0.5 0.6 0.7 0.8 90000. 5.0 400. -1.2 2.3 0.015 99999. 9.9 9.9 9.99 9.9 9.9 9.9 1.60 5.1 999.9 0 120 0 1500 0 1 2 3''"

definition quiet_record :: omni_record where
  "quiet_record =
     \<lparr> entries =
         [''year'' \<mapsto> Some 2003, ''doy'' \<mapsto> Some 300, ''hour'' \<mapsto> Some 12,
          ''imf_magnitude'' \<mapsto> Some (52 / 10), ''imf_bx_gse'' \<mapsto> Some (11 / 10),
          ''imf_by_gse'' \<mapsto> Some (- (4 / 10)), ''imf_bz_gse'' \<mapsto> Some 0,
          ''plasma_temp'' \<mapsto> Some 90000, ''proton_density'' \<mapsto> Some 5,
          ''plasma_speed'' \<mapsto> Some 400, ''kp'' \<mapsto> Some 0, ''dst'' \<mapsto> Some 0],
       omni_record.timestamp = Some (731515, 12) \<rparr>"

definition calm_line :: string where
  "calm_line = ''2003 300 13 2324 71 71  60  60   5.1   5.0 -12.3 170.2  -9.8   1.7   1.0  -0.5   2.5 0.4 0.5 0.6 0.7 0.8 85000. 4.0 380. -1.2 2.3 0.015 99999. 9.9 9.9 9.99 9.9 9.9 9.9 1.16 5.1 999.9 3 120 12 1500 0 1 2 3''"

definition calm_record :: omni_record where
  "calm_record =
     \<lparr> entries =
         [''year'' \<mapsto> Some 2003, ''doy'' \<mapsto> Some 300, ''hour'' \<mapsto> Some 13,
          ''imf_magnitude'' \<mapsto> Some 5, ''imf_bx_gse'' \<mapsto> Some 1,
          ''imf_by_gse'' \<mapsto> Some (- (5 / 10)), ''imf_bz_gse'' \<mapsto> Some (25 / 10),
          ''plasma_temp'' \<mapsto> Some 85000, ''proton_density'' \<mapsto> Some 4,
          ''plasma_speed'' \<mapsto> Some 380, ''kp'' \<mapsto> Some 3, ''dst'' \<mapsto> Some 12],
       omni_record.timestamp = Some (731515, 13) \<rparr>"

definition void_line :: string where
  "void_line = ''2003 300 14 2324 71 71  60  60   5.1   5.0 -12.3 170.2  -9.8   1.7   1.0  -0.5   1.5 0.4 0.5 0.6 0.7 0.8 85000. 0.0 400. -1.2 2.3 0.015 99999. 9.9 9.9 9.99 9.9 9.9 9.9 0.00 5.1 999.9 10 120 -5 1500 0 1 2 3''"

definition void_record :: omni_record where
  "void_record =
     \<lparr> entries =
         [''year'' \<mapsto> Some 2003, ''doy'' \<mapsto> Some 300, ''hour'' \<mapsto> Some 14,
          ''imf_magnitude'' \<mapsto> Some 5, ''imf_bx_gse'' \<mapsto> Some 1,
          ''imf_by_gse'' \<mapsto> Some (- (5 / 10)), ''imf_bz_gse'' \<mapsto> Some (15 / 10),
          ''plasma_temp'' \<mapsto> Some 85000, ''proton_density'' \<mapsto> Some 0,
          ''plasma_speed'' \<mapsto> Some 400, ''kp'' \<mapsto> Some 10, ''dst'' \<mapsto> Some (- 5)],
       omni_record.timestamp = Some (731515, 14) \<rparr>"

definition half_day_line :: string where
  "half_day_line = ''2003 306.5  3 2324 71 71  60  60   5.1   5.0 -12.3 170.2  -9.8   1.7   1.0  -0.5   2.5 0.4 0.5 0.6 0.7 0.8 85000. 4.0 380. -1.2 2.3 0.015 99999. 9.9 9.9 9.99 9.9 9.9 9.9 1.16 5.1 999.9 3 120 12 1500 0 1 2 3''"

definition half_day_record :: omni_record where
  "half_day_record =
     \<lparr> entries =
         [''year'' \<mapsto> Some 2003, ''doy'' \<mapsto> Some (613 / 2), ''hour'' \<mapsto> Some 3,
          ''imf_magnitude'' \<mapsto> Some 5, ''imf_bx_gse'' \<mapsto> Some 1,
          ''imf_by_gse'' \<mapsto> Some (- (5 / 10)), ''imf_bz_gse'' \<mapsto> Some (25 / 10),
          ''plasma_temp'' \<mapsto> Some 85000, ''proton_density'' \<mapsto> Some 4,
          ''plasma_speed'' \<mapsto> Some 380, ''kp'' \<mapsto> Some 3, ''dst'' \<mapsto> Some 12],
       omni_record.timestamp = Some (731521, 3) \<rparr>"

section \<open>Properties of the derived quantities\<close>

lemma dst_level_of_lookup: "dst_level_of x = dst_level_lookup x"
  by (simp add: dst_level_of_def dst_level_lookup_def)

lemma dst_level_lookup_mono: "a \<le> b \<Longrightarrow> dst_level_lookup b \<le> dst_level_lookup a"
  by (simp add: dst_level_lookup_def)

lemma kp_level_of_zero: "kp_level_of 0 = 0"
  by (simp add: kp_level_of_def)

lemma storm_intensity_no_kp:
  "calculate_storm_intensity (Some d) None = dst_level_lookup d"
  by (simp add: calculate_storm_intensity_def kp_level_of_zero dst_level_of_lookup)

section \<open>The magnetopause model\<close>

text \<open>
  Claim C4. For every combination of density, speed and Bz, each present or absent,
  \<open>calculate_magnetopause_standoff\<close> returns a value in the closed interval from 4.0 to
  15.0 Earth radii.
\<close>

theorem standoff_within_4_15:
  "4 \<le> calculate_magnetopause_standoff n v b \<and> calculate_magnetopause_standoff n v b \<le> 15"
  by (simp add: calculate_magnetopause_standoff_def Let_def split: option.split)

text \<open>
  Claim C5. With the density absent, \<open>calculate_magnetopause_standoff\<close> returns exactly
  10.0 Earth radii for every speed and every Bz, and likewise with the speed absent for
  every density. The function has no raising branch: it is total and returns a number.
\<close>

theorem standoff_default_when_absent:
  "calculate_magnetopause_standoff None v b = 10 \<and> calculate_magnetopause_standoff n None b = 10"
  by (simp add: calculate_magnetopause_standoff_def split: option.split)

section \<open>The storm intensity classifier\<close>

text \<open>
  Claim C6. With Kp absent, \<open>calculate_storm_intensity\<close> is monotone non-decreasing in
  the magnitude of Dst for every Dst at or below zero; it returns level 0 at Dst = -49,
  1 at -50, 2 at -100, 3 at -200, 4 at -300 and 5 at -400; and the cumulative threshold
  checks of the source compute the same level as the single ordered lookup
  \<open>dst_level_lookup\<close>.
\<close>

theorem storm_level_monotone_in_dst:
  assumes "a \<le> 0" and "b \<le> 0" and "\<bar>a\<bar> \<le> \<bar>b\<bar>"
  shows "calculate_storm_intensity (Some a) None \<le> calculate_storm_intensity (Some b) None
       \<and> calculate_storm_intensity (Some (- 49)) None = 0
       \<and> calculate_storm_intensity (Some (- 50)) None = 1
       \<and> calculate_storm_intensity (Some (- 100)) None = 2
       \<and> calculate_storm_intensity (Some (- 200)) None = 3
       \<and> calculate_storm_intensity (Some (- 300)) None = 4
       \<and> calculate_storm_intensity (Some (- 400)) None = 5
       \<and> calculate_storm_intensity (Some x) None = dst_level_lookup x"
proof -
  from assms have "b \<le> a" by simp
  then have "dst_level_lookup a \<le> dst_level_lookup b" by (rule dst_level_lookup_mono)
  then show ?thesis
    by (simp add: storm_intensity_no_kp) (simp add: dst_level_lookup_def)
qed

theorem storm_level_monotone_in_dst_witness:
  "(- 60 :: real) \<le> 0 \<and> (- 250 :: real) \<le> 0 \<and> \<bar>- 60 :: real\<bar> \<le> \<bar>- 250\<bar>
   \<and> calculate_storm_intensity (Some (- 60)) None = 1
   \<and> calculate_storm_intensity (Some (- 250)) None = 3
   \<and> calculate_storm_intensity (Some (- 60)) None \<le> calculate_storm_intensity (Some (- 250)) None
   \<and> calculate_storm_intensity (Some (- 450)) None = 5"
  using storm_level_monotone_in_dst [of "- 60" "- 250" "- 450"]
  by (simp add: storm_intensity_no_kp dst_level_lookup_def)

section \<open>The record parser\<close>

text \<open>
  Claim C9. For every line with fewer than 45 whitespace-separated tokens,
  \<open>parse_omni_line\<close> returns no record, and it returns normally: the result is
  \<open>Inr None\<close>, not an exception.
\<close>

theorem short_line_yields_no_record:
  "length (split_ws line) < 45 \<Longrightarrow> parse_omni_line pyfloat line = Inr None"
  by (simp add: parse_omni_line_def)

theorem short_line_yields_no_record_witness:
  "length (split_ws ''2003 301  0 2324 71 71'') < 45
   \<and> parse_omni_line float_decimal ''2003 301  0 2324 71 71'' = Inr None"
proof -
  have short: "length (split_ws ''2003 301  0 2324 71 71'') < 45"
    by (simp add: split_ws_def isspace_def)
  from short short_line_yields_no_record [OF short] show ?thesis by simp
qed

section \<open>What the parser stores\<close>

lemma decode_columns_other:
  "decode_columns pf parts cols rec = Inr rec' \<Longrightarrow> name \<notin> fst ` set cols \<Longrightarrow> rec' name = rec name"
  by (induction cols arbitrary: rec) (auto split: if_splits option.splits)

lemma decode_columns_lookup:
  "decode_columns pf parts cols rec = Inr rec' \<Longrightarrow> distinct (map fst cols) \<Longrightarrow>
   (name, col) \<in> set cols \<Longrightarrow> col < length parts \<Longrightarrow>
   \<exists>val. pf (parts ! col) = Some val \<and> rec' name = Some (fill_check name val)"
proof (induction cols arbitrary: rec)
  case Nil
  then show ?case by simp
next
  case (Cons a cols)
  obtain name' col' where a: "a = (name', col')" by (cases a)
  show ?case
  proof (cases "(name, col) = (name', col')")
    case True
    with Cons.prems a obtain val where v: "pf (parts ! col) = Some val"
      and rest: "decode_columns pf parts cols (rec(name \<mapsto> fill_check name val)) = Inr rec'"
      by (auto split: option.splits)
    from Cons.prems(2) a True have "name \<notin> fst ` set cols" by auto
    from decode_columns_other [OF rest this] v show ?thesis by simp
  next
    case False
    with Cons.prems a have mem: "(name, col) \<in> set cols" by auto
    from Cons.prems(2) have d: "distinct (map fst cols)" by simp
    from Cons.prems(1) a obtain rec0 where "decode_columns pf parts cols rec0 = Inr rec'"
      by (auto split: if_splits option.splits)
    from Cons.IH [OF this d mem Cons.prems(4)] show ?thesis .
  qed
qed

lemma OMNI_COLUMNS_distinct: "distinct (map fst OMNI_COLUMNS)"
  by (simp add: OMNI_COLUMNS_def)

lemma OMNI_COLUMNS_bound: "(name, col) \<in> set OMNI_COLUMNS \<Longrightarrow> col < 45"
  by (auto simp: OMNI_COLUMNS_def)

lemma FILL_VALUES_distinct: "distinct (map fst FILL_VALUES)"
  by (simp add: FILL_VALUES_def)

lemma FILL_VALUES_nonzero: "(name, fill) \<in> set FILL_VALUES \<Longrightarrow> fill \<noteq> 0"
  by (auto simp: FILL_VALUES_def)

lemma FILL_VALUES_lookup: "(name, fill) \<in> set FILL_VALUES \<Longrightarrow> map_of FILL_VALUES name = Some fill"
  by (simp add: map_of_eq_Some_iff [OF FILL_VALUES_distinct])

lemma fill_check_sentinel:
  "(name, fill) \<in> set FILL_VALUES \<Longrightarrow> \<bar>val - fill\<bar> < 1 / 10 \<Longrightarrow> fill_check name val = None"
  using FILL_VALUES_lookup [of name fill] FILL_VALUES_nonzero [of name fill]
  by (simp add: fill_check_def)

lemma attach_timestamp_entries: "attach_timestamp rec = Inr r \<Longrightarrow> entries r = rec"
  by (auto simp: attach_timestamp_def Let_def split: option.splits if_splits sum.splits)


lemma parse_omni_line_record:
  assumes "parse_omni_line pf line = Inr (Some r)"
  shows "45 \<le> length (split_ws line) \<and>
         (\<exists>rec. decode_columns pf (split_ws line) OMNI_COLUMNS Map.empty = Inr rec \<and>
                attach_timestamp rec = Inr r)"
  using assms
  by (auto simp: parse_omni_line_def Let_def split: if_splits sum.splits)

lemma parse_omni_line_entry:
  assumes "parse_omni_line pf line = Inr (Some r)" and "(name, col) \<in> set OMNI_COLUMNS"
  shows "\<exists>val. pf (split_ws line ! col) = Some val \<and> entries r name = Some (fill_check name val)"
proof -
  from parse_omni_line_record [OF assms(1)] obtain rec
    where len: "45 \<le> length (split_ws line)"
      and dec: "decode_columns pf (split_ws line) OMNI_COLUMNS Map.empty = Inr rec"
      and att: "attach_timestamp rec = Inr r" by blast
  from OMNI_COLUMNS_bound [OF assms(2)] len have "col < length (split_ws line)" by simp
  from decode_columns_lookup [OF dec OMNI_COLUMNS_distinct assms(2) this]
    attach_timestamp_entries [OF att]
  show ?thesis by simp
qed

section \<open>The sample lines, decoded and processed\<close>

lemma parse_storm_line: "parse_omni_line float_decimal storm_line = Inr (Some storm_record)"
  by (simp add: parse_omni_line_def split_ws_def isspace_def OMNI_COLUMNS_def
       float_decimal_def unsigned_decimal_def is_digit_def digit_val_def
       fill_check_def FILL_VALUES_def attach_timestamp_def get_def py_int_def
       doy_to_date_def days_before_year_def MAXORDINAL_def storm_line_def storm_record_def)

lemma parse_gap_line: "parse_omni_line float_decimal gap_line = Inr (Some gap_record)"
  by (simp add: parse_omni_line_def split_ws_def isspace_def OMNI_COLUMNS_def
       float_decimal_def unsigned_decimal_def is_digit_def digit_val_def
       fill_check_def FILL_VALUES_def attach_timestamp_def get_def py_int_def
       doy_to_date_def days_before_year_def MAXORDINAL_def gap_line_def gap_record_def)

lemma gap_line_speed_token: "float_decimal (split_ws gap_line ! 24) = Some 9999"
  by (simp add: gap_line_def split_ws_def isspace_def float_decimal_def
        unsigned_decimal_def is_digit_def digit_val_def)

lemma process_storm_record: "process_record storm_record = Some storm_processed"
  by (simp add: process_record_def storm_record_def storm_processed_def get_def Let_def
      calculate_storm_intensity_def dst_level_of_def kp_level_of_def)

lemma process_gap_record: "process_record gap_record = Some gap_processed"
  by (simp add: process_record_def gap_record_def gap_processed_def get_def Let_def
      calculate_magnetopause_standoff_def calculate_storm_intensity_def
      dst_level_of_def kp_level_of_def)

lemma storm_only_avg_speed:
  "map_option (\<lambda>s. avg_speed (sum_solar_wind s))
       (generate_summary \<lparr> event_info = None :: unit option,
          data = [storm_processed], generated_at = [] \<rparr>) = Some (Some 800)"
  by (simp add: generate_summary_def Let_def storm_processed_def truthy_values_def
      avg_or_none_def)


lemma parse_quiet_line: "parse_omni_line float_decimal quiet_line = Inr (Some quiet_record)"
  by (simp add: parse_omni_line_def split_ws_def isspace_def OMNI_COLUMNS_def
       float_decimal_def unsigned_decimal_def is_digit_def digit_val_def
       fill_check_def FILL_VALUES_def attach_timestamp_def get_def py_int_def
       doy_to_date_def days_before_year_def MAXORDINAL_def quiet_line_def quiet_record_def)

lemma parse_calm_line: "parse_omni_line float_decimal calm_line = Inr (Some calm_record)"
  by (simp add: parse_omni_line_def split_ws_def isspace_def OMNI_COLUMNS_def
       float_decimal_def unsigned_decimal_def is_digit_def digit_val_def
       fill_check_def FILL_VALUES_def attach_timestamp_def get_def py_int_def
       doy_to_date_def days_before_year_def MAXORDINAL_def calm_line_def calm_record_def)

lemma parse_void_line: "parse_omni_line float_decimal void_line = Inr (Some void_record)"
  by (simp add: parse_omni_line_def split_ws_def isspace_def OMNI_COLUMNS_def
       float_decimal_def unsigned_decimal_def is_digit_def digit_val_def
       fill_check_def FILL_VALUES_def attach_timestamp_def get_def py_int_def
       doy_to_date_def days_before_year_def MAXORDINAL_def void_line_def void_record_def)

lemma parse_half_day_line:
  "parse_omni_line float_decimal half_day_line = Inr (Some half_day_record)"
  by (simp add: parse_omni_line_def split_ws_def isspace_def OMNI_COLUMNS_def
       float_decimal_def unsigned_decimal_def is_digit_def digit_val_def
       fill_check_def FILL_VALUES_def attach_timestamp_def get_def py_int_def
       doy_to_date_def days_before_year_def MAXORDINAL_def half_day_line_def
       half_day_record_def)

section \<open>Absent values downstream\<close>

lemma truthy_values_skip:
  "f p = None \<Longrightarrow> truthy_values (map f (xs @ p # ys)) = truthy_values (map f (xs @ ys))"
  by (simp add: truthy_values_def)

lemma process_record_speed:
  "process_record r = Some p \<Longrightarrow> speed (solar_wind p) = get r ''plasma_speed''"
  by (auto simp: process_record_def Let_def split: option.splits)

lemma process_record_pressure_absent:
  "process_record r = Some p \<Longrightarrow> get r ''plasma_speed'' = None \<Longrightarrow> pressure (solar_wind p) = None"
  by (auto simp: process_record_def Let_def split: option.splits)

lemma summary_speed_skip:
  assumes "speed (solar_wind p) = None" and "xs @ ys \<noteq> []"
  shows "map_option (\<lambda>s. avg_speed (sum_solar_wind s)) (generate_summary (pd\<lparr>data := xs @ p # ys\<rparr>))
       = map_option (\<lambda>s. avg_speed (sum_solar_wind s)) (generate_summary (pd\<lparr>data := xs @ ys\<rparr>))"
  using assms truthy_values_skip [of "\<lambda>d. speed (solar_wind d)" p xs ys]
  by (simp add: generate_summary_def Let_def)

section \<open>Sentinels\<close>

text \<open>
  Claim C8. For every field with a sentinel in \<open>FILL_VALUES\<close> (speed 9999.0, density and
  the IMF columns 999.9, temperature 9999999.0, Kp 99, Dst 99999) and every token whose
  decoded value is less than 0.1 away from that sentinel, the record returned by the
  parser has the field absent. The value then takes part in no later arithmetic: for the
  speed, the processed record has no speed and no pressure, and the average speed of the
  summary is the one computed without that record.
\<close>

theorem sentinel_resolves_to_absent:
  assumes "parse_omni_line pyfloat line = Inr (Some r)"
    and "(name, col) \<in> set OMNI_COLUMNS" and "(name, fill) \<in> set FILL_VALUES"
    and "pyfloat (split_ws line ! col) = Some val" and "\<bar>val - fill\<bar> < 1 / 10"
  shows "get r name = None
    \<and> (name = ''plasma_speed'' \<and> process_record r = Some p \<and> xs @ ys \<noteq> [] \<longrightarrow>
         speed (solar_wind p) = None \<and> pressure (solar_wind p) = None
         \<and> map_option (\<lambda>s. avg_speed (sum_solar_wind s))
             (generate_summary (pd\<lparr>data := xs @ p # ys\<rparr>))
           = map_option (\<lambda>s. avg_speed (sum_solar_wind s))
               (generate_summary (pd\<lparr>data := xs @ ys\<rparr>)))"
proof -
  from parse_omni_line_entry [OF assms(1,2)] assms(4)
  have e: "entries r name = Some (fill_check name val)" by simp
  from fill_check_sentinel [OF assms(3,5)] e
  have absent: "get r name = None" by (simp add: get_def)
  have rest: "speed (solar_wind p) = None \<and> pressure (solar_wind p) = None
         \<and> map_option (\<lambda>s. avg_speed (sum_solar_wind s))
             (generate_summary (pd\<lparr>data := xs @ p # ys\<rparr>))
           = map_option (\<lambda>s. avg_speed (sum_solar_wind s))
               (generate_summary (pd\<lparr>data := xs @ ys\<rparr>))"
    if h: "name = ''plasma_speed'' \<and> process_record r = Some p \<and> xs @ ys \<noteq> []"
  proof -
    from h have h1: "name = ''plasma_speed''" and h2: "process_record r = Some p"
      and h3: "xs @ ys \<noteq> []" by blast+
    from absent h1 have a: "get r ''plasma_speed'' = None" by simp
    from process_record_speed [OF h2] a have s: "speed (solar_wind p) = None" by simp
    from process_record_pressure_absent [OF h2 a] have q: "pressure (solar_wind p) = None" .
    from s q summary_speed_skip [OF s h3, of pd] show ?thesis by (intro conjI)
  qed
  show ?thesis
  proof (rule conjI)
    show "get r name = None" by (rule absent)
  next
    show "name = ''plasma_speed'' \<and> process_record r = Some p \<and> xs @ ys \<noteq> [] \<longrightarrow>
         speed (solar_wind p) = None \<and> pressure (solar_wind p) = None
         \<and> map_option (\<lambda>s. avg_speed (sum_solar_wind s))
             (generate_summary (pd\<lparr>data := xs @ p # ys\<rparr>))
           = map_option (\<lambda>s. avg_speed (sum_solar_wind s))
               (generate_summary (pd\<lparr>data := xs @ ys\<rparr>))"
      using rest by (rule impI)
  qed
qed

theorem sentinel_resolves_to_absent_witness:
  "parse_omni_line float_decimal gap_line = Inr (Some gap_record)
   \<and> float_decimal (split_ws gap_line ! 24) = Some 9999
   \<and> get gap_record ''plasma_speed'' = None
   \<and> process_record gap_record = Some gap_processed
   \<and> speed (solar_wind gap_processed) = None
   \<and> pressure (solar_wind gap_processed) = None
   \<and> map_option (\<lambda>s. avg_speed (sum_solar_wind s))
       (generate_summary \<lparr> event_info = None :: unit option,
          data = [storm_processed, gap_processed], generated_at = [] \<rparr>) = Some (Some 800)"
proof -
  have col: "(''plasma_speed'', 24) \<in> set OMNI_COLUMNS" by (simp add: OMNI_COLUMNS_def)
  have fill: "(''plasma_speed'', 9999) \<in> set FILL_VALUES" by (simp add: FILL_VALUES_def)
  have near: "\<bar>9999 - 9999 :: real\<bar> < 1 / 10" by simp
  have ne: "[storm_processed] @ [] \<noteq> []" by simp
  note inst = sentinel_resolves_to_absent [OF parse_gap_line col fill gap_line_speed_token near,
      of gap_processed "[storm_processed]" "[]"
         "\<lparr> event_info = None :: unit option, data = [], generated_at = [] \<rparr>"]
  from inst have a: "get gap_record ''plasma_speed'' = None" by (rule conjunct1)
  from inst process_gap_record ne
  have b: "speed (solar_wind gap_processed) = None \<and> pressure (solar_wind gap_processed) = None
         \<and> map_option (\<lambda>s. avg_speed (sum_solar_wind s))
             (generate_summary (\<lparr> event_info = None :: unit option, data = [], generated_at = [] \<rparr>
                 \<lparr>data := [storm_processed] @ gap_processed # []\<rparr>))
           = map_option (\<lambda>s. avg_speed (sum_solar_wind s))
               (generate_summary (\<lparr> event_info = None :: unit option, data = [], generated_at = [] \<rparr>
                  \<lparr>data := [storm_processed] @ []\<rparr>))"
    by blast
  from b storm_only_avg_speed
  have c: "map_option (\<lambda>s. avg_speed (sum_solar_wind s))
       (generate_summary \<lparr> event_info = None :: unit option,
          data = [storm_processed, gap_processed], generated_at = [] \<rparr>) = Some (Some 800)"
    by simp
  from parse_gap_line gap_line_speed_token a process_gap_record b c show ?thesis by blast
qed

section \<open>Timestamps\<close>



section \<open>The date-range filter\<close>

text \<open>
  The loop of \<open>fetch_event_data\<close> appends a decoded record exactly when \<open>keep_record\<close>
  holds of its truncated year and day of year, and the event dates
  2003-10-28 and 2003-11-02 select the year 2003 with the days 301 to 306.
\<close>

lemma parse_omni_line_year_doy:
  assumes "parse_omni_line pf line = Inr (Some r)"
  shows "\<exists>y d. entries r ''year'' = Some (Some y) \<and> entries r ''doy'' = Some (Some d)"
proof -
  from parse_omni_line_entry [OF assms, of "''year''" 0]
  obtain y where y: "entries r ''year'' = Some (Some y)"
    by (auto simp: OMNI_COLUMNS_def fill_check_def FILL_VALUES_def)
  from parse_omni_line_entry [OF assms, of "''doy''" 1]
  obtain d where d: "entries r ''doy'' = Some (Some d)"
    by (auto simp: OMNI_COLUMNS_def fill_check_def FILL_VALUES_def)
  from y d show ?thesis by blast
qed

lemma scan_lines_parsed:
  assumes "parse_omni_line pf line = Inr (Some r)"
  shows "\<exists>y d. entries r ''year'' = Some (Some y) \<and> entries r ''doy'' = Some (Some d) \<and>
           scan_lines pf sy sd ey ed (line # lines) all_data =
           scan_lines pf sy sd ey ed lines
             (if keep_record sy sd ey ed (py_int y) (py_int d) then all_data @ [r] else all_data)"
proof -
  from parse_omni_line_year_doy [OF assms] obtain y d
    where y: "entries r ''year'' = Some (Some y)" and d: "entries r ''doy'' = Some (Some d)"
    by blast
  from y have ne: "entries r \<noteq> Map.empty" by auto
  from assms y d ne have "scan_lines pf sy sd ey ed (line # lines) all_data =
           scan_lines pf sy sd ey ed lines
             (if keep_record sy sd ey ed (py_int y) (py_int d) then all_data @ [r] else all_data)"
    by (simp add: int_get0_def)
  with y d show ?thesis by blast
qed

lemma fetch_event_data_halloween:
  "fetch_event_data fetch pf ''2003-10-28'' ''2003-11-02'' =
     scan_years fetch pf 2003 301 2003 306 [2003] []"
  by (simp add: fetch_event_data_def date_to_doy_def strptime_ymd_def is_digit_def digit_val_def
        days_in_month_def days_before_month_def is_leap_def upto.simps)

lemma keep_record_iff:
  "keep_record sy sd ey ed y d
     = (sy \<le> y \<and> y \<le> ey \<and> (y = sy \<longrightarrow> sd \<le> d) \<and> (y = ey \<longrightarrow> d \<le> ed))"
  by (auto simp: keep_record_def)

lemma scan_years_single:
  "fetch year = Some [line] \<Longrightarrow>
   scan_years fetch pf sy sd ey ed [year] [] = scan_lines pf sy sd ey ed [line] []"
  by (simp split: sum.splits)

text \<open>
  Claim C7. For every record that the parser returns and every date range, the loop of
  \<open>fetch_event_data\<close> either appends the record or leaves the list as it is, deciding
  on the year and the day of year truncated by \<^verbatim>\<open>int\<close>: a record of the start year is
  appended only if its day of year is at least the start day, a record of the end year
  only if its day of year is at most the end day, a record of a year strictly between
  the two is always appended, and a record of a year outside them is dropped. For the
  range 2003-10-28 to 2003-11-02, the dates give the days 301 and 306 of 2003, and
  \<open>fetch_event_data\<close> on a year file holding the line returns the record when its
  day of year is 301 to 306 and nothing otherwise, so the days 300 and 307 are dropped.
\<close>

theorem date_range_filter:
  assumes "parse_omni_line pyfloat line = Inr (Some r)"
  shows "\<exists>yf df. get r ''year'' = Some yf \<and> get r ''doy'' = Some df \<and>
    (let y = py_int yf; d = py_int df;
         kept = (scan_lines pyfloat sy sd ey ed [line] all_data = Inr (all_data @ [r]));
         dropped = (scan_lines pyfloat sy sd ey ed [line] all_data = Inr all_data)
     in dropped = (\<not> kept)
        \<and> (y = sy \<and> kept \<longrightarrow> sd \<le> d)
        \<and> (y = ey \<and> kept \<longrightarrow> d \<le> ed)
        \<and> (sy < y \<and> y < ey \<longrightarrow> kept)
        \<and> (y < sy \<or> ey < y \<longrightarrow> dropped)
        \<and> kept = (sy \<le> y \<and> y \<le> ey \<and> (y = sy \<longrightarrow> sd \<le> d) \<and> (y = ey \<longrightarrow> d \<le> ed))
        \<and> scan_lines pyfloat sy sd ey ed (line # lines) all_data
            = scan_lines pyfloat sy sd ey ed lines (if kept then all_data @ [r] else all_data)
        \<and> date_to_doy ''2003-10-28'' = Inr (2003, 301)
        \<and> date_to_doy ''2003-11-02'' = Inr (2003, 306)
        \<and> (fetch 2003 = Some [line] \<and> y = 2003 \<longrightarrow>
             fetch_event_data fetch pyfloat ''2003-10-28'' ''2003-11-02''
               = Inr (if 301 \<le> d \<and> d \<le> 306 then [r] else [])))"
proof -
  from scan_lines_parsed [OF assms, of sy sd ey ed lines all_data] obtain yf df
    where y: "entries r ''year'' = Some (Some yf)" and d: "entries r ''doy'' = Some (Some df)"
      and step: "scan_lines pyfloat sy sd ey ed (line # lines) all_data =
           scan_lines pyfloat sy sd ey ed lines
             (if keep_record sy sd ey ed (py_int yf) (py_int df) then all_data @ [r] else all_data)"
    by blast
  from scan_lines_parsed [OF assms, of sy sd ey ed "[]" all_data] y d
  have one: "scan_lines pyfloat sy sd ey ed [line] all_data =
           Inr (if keep_record sy sd ey ed (py_int yf) (py_int df) then all_data @ [r] else all_data)"
    by simp
  from scan_lines_parsed [OF assms, of 2003 301 2003 306 "[]" "[]"] y d
  have hw: "scan_lines pyfloat 2003 301 2003 306 [line] [] =
           Inr (if keep_record 2003 301 2003 306 (py_int yf) (py_int df) then [r] else [])"
    by simp
  have kept: "(scan_lines pyfloat sy sd ey ed [line] all_data = Inr (all_data @ [r]))
      = keep_record sy sd ey ed (py_int yf) (py_int df)"
    unfolding one by simp
  have dropped: "(scan_lines pyfloat sy sd ey ed [line] all_data = Inr all_data)
      = (\<not> keep_record sy sd ey ed (py_int yf) (py_int df))"
    unfolding one by simp
  have d1: "date_to_doy ''2003-10-28'' = Inr (2003, 301)"
    by (simp add: date_to_doy_def strptime_ymd_def is_digit_def digit_val_def
        days_in_month_def days_before_month_def is_leap_def upto.simps)
  have d2: "date_to_doy ''2003-11-02'' = Inr (2003, 306)"
    by (simp add: date_to_doy_def strptime_ymd_def is_digit_def digit_val_def
        days_in_month_def days_before_month_def is_leap_def upto.simps)
  have fe: "fetch_event_data fetch pyfloat ''2003-10-28'' ''2003-11-02''
               = Inr (if 301 \<le> py_int df \<and> py_int df \<le> 306 then [r] else [])"
    if "fetch 2003 = Some [line] \<and> py_int yf = 2003"
  proof -
    from that have f: "fetch 2003 = Some [line]" and yy: "py_int yf = 2003" by blast+
    have "fetch_event_data fetch pyfloat ''2003-10-28'' ''2003-11-02''
        = scan_lines pyfloat 2003 301 2003 306 [line] []"
      by (simp only: fetch_event_data_halloween
          scan_years_single [of fetch 2003 line pyfloat 2003 301 2003 306, OF f])
    also have "\<dots> = Inr (if 301 \<le> py_int df \<and> py_int df \<le> 306 then [r] else [])"
      unfolding hw by (simp add: yy keep_record_iff)
    finally show ?thesis .
  qed
  have body: "(let y = py_int yf; d = py_int df;
         kept = (scan_lines pyfloat sy sd ey ed [line] all_data = Inr (all_data @ [r]));
         dropped = (scan_lines pyfloat sy sd ey ed [line] all_data = Inr all_data)
     in dropped = (\<not> kept)
        \<and> (y = sy \<and> kept \<longrightarrow> sd \<le> d)
        \<and> (y = ey \<and> kept \<longrightarrow> d \<le> ed)
        \<and> (sy < y \<and> y < ey \<longrightarrow> kept)
        \<and> (y < sy \<or> ey < y \<longrightarrow> dropped)
        \<and> kept = (sy \<le> y \<and> y \<le> ey \<and> (y = sy \<longrightarrow> sd \<le> d) \<and> (y = ey \<longrightarrow> d \<le> ed))
        \<and> scan_lines pyfloat sy sd ey ed (line # lines) all_data
            = scan_lines pyfloat sy sd ey ed lines (if kept then all_data @ [r] else all_data)
        \<and> date_to_doy ''2003-10-28'' = Inr (2003, 301)
        \<and> date_to_doy ''2003-11-02'' = Inr (2003, 306)
        \<and> (fetch 2003 = Some [line] \<and> y = 2003 \<longrightarrow>
             fetch_event_data fetch pyfloat ''2003-10-28'' ''2003-11-02''
               = Inr (if 301 \<le> d \<and> d \<le> 306 then [r] else [])))"
    unfolding Let_def kept dropped
    using step d1 d2 fe by (auto simp: keep_record_iff)
  from y d have "get r ''year'' = Some yf \<and> get r ''doy'' = Some df" by (simp add: get_def)
  with body show ?thesis by blast
qed

theorem date_range_filter_witness:
  "parse_omni_line float_decimal storm_line = Inr (Some storm_record)
   \<and> get storm_record ''year'' = Some 2003 \<and> get storm_record ''doy'' = Some 301
   \<and> scan_lines float_decimal 2003 301 2004 10 [storm_line] [] = Inr [storm_record]
   \<and> scan_lines float_decimal 2002 5 2003 306 [storm_line] [] = Inr [storm_record]
   \<and> scan_lines float_decimal 2002 5 2004 10 [storm_line] [] = Inr [storm_record]
   \<and> scan_lines float_decimal 2004 1 2005 10 [storm_line] [] = Inr []
   \<and> scan_lines float_decimal 2003 302 2004 10 [storm_line] [] = Inr []
   \<and> fetch_event_data (\<lambda>year. if year = 2003 then Some [storm_line] else None) float_decimal
        ''2003-10-28'' ''2003-11-02'' = Inr [storm_record]
   \<and> parse_omni_line float_decimal quiet_line = Inr (Some quiet_record)
   \<and> get quiet_record ''doy'' = Some 300
   \<and> fetch_event_data (\<lambda>year. if year = 2003 then Some [quiet_line] else None) float_decimal
        ''2003-10-28'' ''2003-11-02'' = Inr []
   \<and> parse_omni_line float_decimal half_day_line = Inr (Some half_day_record)
   \<and> get half_day_record ''doy'' = Some (613 / 2)
   \<and> fetch_event_data (\<lambda>year. if year = 2003 then Some [half_day_line] else None) float_decimal
        ''2003-10-28'' ''2003-11-02'' = Inr [half_day_record]"
proof -
  have gs: "get storm_record ''year'' = Some 2003 \<and> get storm_record ''doy'' = Some 301"
    by (simp add: storm_record_def get_def)
  have gq: "get quiet_record ''year'' = Some 2003 \<and> get quiet_record ''doy'' = Some 300"
    by (simp add: quiet_record_def get_def)
  have gh: "get half_day_record ''year'' = Some 2003 \<and> get half_day_record ''doy'' = Some (613 / 2)"
    by (simp add: half_day_record_def get_def)
  have a: "scan_lines float_decimal 2003 301 2004 10 [storm_line] [] = Inr [storm_record]"
    using date_range_filter [OF parse_storm_line, of 2003 301 2004 10 "[]" "[]"] gs
    by (auto simp: Let_def py_int_def)
  have b: "scan_lines float_decimal 2002 5 2003 306 [storm_line] [] = Inr [storm_record]"
    using date_range_filter [OF parse_storm_line, of 2002 5 2003 306 "[]" "[]"] gs
    by (auto simp: Let_def py_int_def)
  have c: "scan_lines float_decimal 2002 5 2004 10 [storm_line] [] = Inr [storm_record]"
    using date_range_filter [OF parse_storm_line, of 2002 5 2004 10 "[]" "[]"] gs
    by (auto simp: Let_def py_int_def)
  have d: "scan_lines float_decimal 2004 1 2005 10 [storm_line] [] = Inr []"
    using date_range_filter [OF parse_storm_line, of 2004 1 2005 10 "[]" "[]"] gs
    by (auto simp: Let_def py_int_def)
  have e: "scan_lines float_decimal 2003 302 2004 10 [storm_line] [] = Inr []"
    using date_range_filter [OF parse_storm_line, of 2003 302 2004 10 "[]" "[]"] gs
    by (auto simp: Let_def py_int_def)
  have f: "fetch_event_data (\<lambda>year. if year = 2003 then Some [storm_line] else None) float_decimal
        ''2003-10-28'' ''2003-11-02'' = Inr [storm_record]"
    using date_range_filter [OF parse_storm_line, of 2003 301 2003 306 "[]" "[]"
        "\<lambda>year. if year = 2003 then Some [storm_line] else None"] gs
    by (auto simp: Let_def py_int_def)
  have g: "fetch_event_data (\<lambda>year. if year = 2003 then Some [quiet_line] else None) float_decimal
        ''2003-10-28'' ''2003-11-02'' = Inr []"
    using date_range_filter [OF parse_quiet_line, of 2003 301 2003 306 "[]" "[]"
        "\<lambda>year. if year = 2003 then Some [quiet_line] else None"] gq
    by (auto simp: Let_def py_int_def)
  have h: "fetch_event_data (\<lambda>year. if year = 2003 then Some [half_day_line] else None) float_decimal
        ''2003-10-28'' ''2003-11-02'' = Inr [half_day_record]"
    using date_range_filter [OF parse_half_day_line, of 2003 301 2003 306 "[]" "[]"
        "\<lambda>year. if year = 2003 then Some [half_day_line] else None"] gh
    by (auto simp: Let_def py_int_def)
  from parse_storm_line parse_quiet_line parse_half_day_line gs gq gh a b c d e f g h
  show ?thesis by blast
qed

section \<open>Values that are zero\<close>

text \<open>
  Claim C1 reads: the pressure of a processed record is 2e-6 times density times speed
  squared when density and speed are present, and absent exactly when one of them is
  absent. The pipeline tests \<^verbatim>\<open>density and speed\<close> by truth value, so a density of
  0.0 that is present yields no pressure: the void hour decodes to a record with density
  0 and speed 400, and its processed record has pressure \<^verbatim>\<open>None\<close>, where the claim
  gives 0.0. \<open>calculate_magnetopause_standoff\<close>, which tests \<^verbatim>\<open>is None\<close>, computes
  with the same density and returns 10.
\<close>

theorem pressure_absent_at_zero_density:
  "parse_omni_line float_decimal void_line = Inr (Some void_record)
   \<and> get void_record ''proton_density'' = Some 0
   \<and> get void_record ''plasma_speed'' = Some 400
   \<and> map (\<lambda>p. pressure (solar_wind p))
        (data (process_event_data [void_record] (None :: unit option) [])) = [None]
   \<and> map (\<lambda>p. standoff_re (magnetosphere p))
        (data (process_event_data [void_record] (None :: unit option) [])) = [10]"
proof -
  have "get void_record ''proton_density'' = Some 0 \<and> get void_record ''plasma_speed'' = Some 400"
    by (simp add: void_record_def get_def)
  moreover have "map (\<lambda>p. pressure (solar_wind p))
        (data (process_event_data [void_record] (None :: unit option) [])) = [None]"
    by (simp add: process_event_data_def List.map_filter_def process_record_def Let_def
        void_record_def get_def)
  moreover have "map (\<lambda>p. standoff_re (magnetosphere p))
        (data (process_event_data [void_record] (None :: unit option) [])) = [10]"
    by (simp add: process_event_data_def List.map_filter_def process_record_def Let_def
        void_record_def get_def calculate_magnetopause_standoff_def)
  ultimately show ?thesis using parse_void_line by blast
qed

text \<open>
  Claim C3 reads: the processed Kp is the raw Kp divided by 10, and absent exactly when
  the raw Kp is absent. The pipeline tests \<^verbatim>\<open>kp\<close> by truth value, so a raw Kp of 0
  that is present yields no Kp: the quiet hour decodes to a record with Kp 0, and its
  processed record has Kp \<^verbatim>\<open>None\<close>, where the claim gives 0.0.
  \<open>calculate_storm_intensity\<close>, which tests \<^verbatim>\<open>is None\<close>, classifies the same Kp as
  level 0.
\<close>

theorem kp_absent_at_zero_kp:
  "parse_omni_line float_decimal quiet_line = Inr (Some quiet_record)
   \<and> get quiet_record ''kp'' = Some 0
   \<and> map (\<lambda>p. kp (geomagnetic p))
        (data (process_event_data [quiet_record] (None :: unit option) [])) = [None]
   \<and> map (\<lambda>p. storm_level (geomagnetic p))
        (data (process_event_data [quiet_record] (None :: unit option) [])) = [0]"
proof -
  have "get quiet_record ''kp'' = Some 0"
    by (simp add: quiet_record_def get_def)
  moreover have "map (\<lambda>p. kp (geomagnetic p))
        (data (process_event_data [quiet_record] (None :: unit option) [])) = [None]"
    by (simp add: process_event_data_def List.map_filter_def process_record_def Let_def
        quiet_record_def get_def)
  moreover have "map (\<lambda>p. storm_level (geomagnetic p))
        (data (process_event_data [quiet_record] (None :: unit option) [])) = [0]"
    by (simp add: process_event_data_def List.map_filter_def process_record_def Let_def
        quiet_record_def get_def calculate_storm_intensity_def dst_level_of_def kp_level_of_def)
  ultimately show ?thesis using parse_quiet_line by blast
qed

text \<open>
  Claim C2 reads: the summary takes its extrema and its average over exactly the records
  where the field is present, and a statistic is absent only when no record has the
  field. The list comprehensions of \<open>generate_summary\<close> test the field by truth value,
  so a present value of 0 is left out: for the quiet hour followed by the calm hour, Dst
  is present as 0 and 12 and the summary reports a minimum of 12, Bz is present as 0.0
  and 2.5 and the summary reports a minimum of 2.5; for the quiet hour alone, Dst is
  present as 0 and the summary reports no minimum.
\<close>

theorem summary_leaves_out_zero_values:
  "map (\<lambda>p. dst (geomagnetic p))
     (data (process_event_data [quiet_record, calm_record] (None :: unit option) []))
     = [Some 0, Some 12]
   \<and> map_option (\<lambda>s. min_dst (sum_geomagnetic s))
       (generate_summary (process_event_data [quiet_record, calm_record] (None :: unit option) []))
     = Some (Some 12)
   \<and> map (\<lambda>p. bz (imf p))
     (data (process_event_data [quiet_record, calm_record] (None :: unit option) []))
     = [Some 0, Some (25 / 10)]
   \<and> map_option (\<lambda>s. min_bz (sum_imf s))
       (generate_summary (process_event_data [quiet_record, calm_record] (None :: unit option) []))
     = Some (Some (25 / 10))
   \<and> map (\<lambda>p. dst (geomagnetic p))
     (data (process_event_data [quiet_record] (None :: unit option) [])) = [Some 0]
   \<and> map_option (\<lambda>s. min_dst (sum_geomagnetic s))
       (generate_summary (process_event_data [quiet_record] (None :: unit option) []))
     = Some None"
  by (simp add: process_event_data_def List.map_filter_def process_record_def Let_def
      quiet_record_def calm_record_def get_def generate_summary_def truthy_values_def
      min_or_none_def)

end
